theory Spec2Isabelle
  imports Complex_Main
begin

section \<open>JavaScript values\<close>

text \<open>
  The values that flow through \<^verbatim>\<open>src/components/static-map.js\<close>. Numbers are exact
  (\<open>NaN\<close> is left out: the file does no arithmetic), a function is known by its name, and an
  object is the list of its own fields in insertion order.
\<close>

datatype js_value =
    JUndefined
  | JNull
  | JBool bool
  | JNum real
  | JStr string
  | JFun string
  | JObj "(string \<times> js_value) list"

datatype js_error = TypeError | ExternalError

text \<open>What \<^verbatim>\<open>if (v)\<close>, \<^verbatim>\<open>!v\<close>, \<^verbatim>\<open>&&\<close> and \<^verbatim>\<open>||\<close> test.\<close>

fun truthy :: "js_value \<Rightarrow> bool" where
  "truthy JUndefined = False"
| "truthy JNull = False"
| "truthy (JBool b) = b"
| "truthy (JNum x) = (x \<noteq> 0)"
| "truthy (JStr s) = (s \<noteq> [])"
| "truthy (JFun f) = True"
| "truthy (JObj fs) = True"

text \<open>
  The property read \<^verbatim>\<open>v.k\<close>: a TypeError on \<^verbatim>\<open>undefined\<close> and \<^verbatim>\<open>null\<close>, the field (or
  \<^verbatim>\<open>undefined\<close>) on an object, \<^verbatim>\<open>undefined\<close> on a primitive (inherited properties are
  not modelled: the file reads only \<^verbatim>\<open>error\<close> and \<^verbatim>\<open>status\<close> this way).
\<close>

definition field :: "(string \<times> js_value) list \<Rightarrow> string \<Rightarrow> js_value" where
  "field fs k = (case map_of fs k of None \<Rightarrow> JUndefined | Some v \<Rightarrow> v)"

fun get_prop :: "js_value \<Rightarrow> string \<Rightarrow> js_error + js_value" where
  "get_prop JUndefined k = Inl TypeError"
| "get_prop JNull k = Inl TypeError"
| "get_prop (JObj fs) k = Inr (field fs k)"
| "get_prop v k = Inr JUndefined"

text \<open>The assignment \<^verbatim>\<open>o[k] = v\<close>: in place when the key exists, appended otherwise.\<close>

fun set_field :: "string \<Rightarrow> js_value \<Rightarrow> (string \<times> js_value) list \<Rightarrow> (string \<times> js_value) list" where
  "set_field k v [] = [(k, v)]"
| "set_field k v ((k', v') # fs) = (if k' = k then (k, v) # fs else (k', v') # set_field k v fs)"

text \<open>
  \<^verbatim>\<open>Object.assign(target, source)\<close> on field lists, and the own fields that
  \<^verbatim>\<open>Object.assign\<close> copies from a source value (none from \<^verbatim>\<open>undefined\<close>, \<^verbatim>\<open>null\<close>,
  numbers, booleans and functions; the index keys of a string are not modelled).
\<close>

definition assign :: "(string \<times> js_value) list \<Rightarrow> (string \<times> js_value) list \<Rightarrow> (string \<times> js_value) list" where
  "assign target source = fold (\<lambda>(k, v). set_field k v) source target"

fun own_fields :: "js_value \<Rightarrow> (string \<times> js_value) list" where
  "own_fields (JObj fs) = fs"
| "own_fields v = []"

text \<open>A reference held in an instance field: never assigned, \<^verbatim>\<open>null\<close>, or an object.\<close>

datatype 'a js_ref = RefUndefined | RefNull | Ref 'a

section \<open>Style descriptors\<close>

text \<open>
  \<^verbatim>\<open>mapStyle\<close> is a string or an object (propTypes, lines 54-57). An object has an
  identity (its address) besides its content (the style document, here its text).
  \<^verbatim>\<open>!==\<close> compares two strings by value and two objects by identity.
\<close>

datatype style_descriptor = StyleString string | StyleObject nat string

fun strict_eq :: "style_descriptor \<Rightarrow> style_descriptor \<Rightarrow> bool" where
  "strict_eq (StyleString a) (StyleString b) = (a = b)"
| "strict_eq (StyleObject r d) (StyleObject r' d') = (r = r')"
| "strict_eq (StyleString a) (StyleObject r d) = False"
| "strict_eq (StyleObject r d) (StyleString a) = False"

section \<open>Rendered elements\<close>

text \<open>
  What \<^verbatim>\<open>createElement(type, props, children)\<close> returns: the type, the props other than
  \<^verbatim>\<open>children\<close>, and the children. \<^verbatim>\<open>null\<close> in a child list is \<open>NullNode\<close>.
\<close>

datatype element =
    Element string "(string \<times> js_value) list" "element list"
  | TextNode string
  | NullNode

fun el_props :: "element \<Rightarrow> (string \<times> js_value) list" where
  "el_props (Element t ps cs) = ps"
| "el_props e = []"

fun el_children :: "element \<Rightarrow> element list" where
  "el_children (Element t ps cs) = cs"
| "el_children e = []"

definition el_key :: "element \<Rightarrow> js_value" where
  "el_key e = field (el_props e) ''key''"

definition el_style :: "element \<Rightarrow> string \<Rightarrow> js_value" where
  "el_style e k = field (own_fields (field (el_props e) ''style'')) k"

section \<open>Props, state and the instance\<close>

record props =
  mapStyle :: style_descriptor
  preventStyleDiffing :: bool
  disableTokenWarning :: bool
  visible :: bool
  width :: js_value
  height :: js_value
  visibilityConstraints :: js_value
  viewState :: js_value
  longitude :: js_value
  latitude :: js_value
  zoom :: js_value
  bearing :: js_value
  pitch :: js_value
  className :: js_value
  style :: js_value
  children :: "element list"
  onViewportChange :: js_value

text \<open>\<^verbatim>\<open>this.state\<close> (lines 98-102); the sizes are the numbers the size observer reports.\<close>

record component_state =
  st_width :: real
  st_height :: real
  accessTokenInvalid :: bool

text \<open>
  The calls that reach the engine: the adapter (\<^verbatim>\<open>new Mapbox\<close>, \<^verbatim>\<open>getMap\<close>, \<^verbatim>\<open>setProps\<close>,
  \<^verbatim>\<open>finalize\<close>) and the map it owns (\<^verbatim>\<open>setStyle\<close>, \<^verbatim>\<open>resize\<close>,
  \<^verbatim>\<open>queryRenderedFeatures\<close>), in the order they are made.
\<close>

datatype engine_call =
    NewMapbox props "nat js_ref"
  | GetMap
  | SetProps props
  | Finalize
  | SetStyle style_descriptor bool
  | Resize
  | QueryRenderedFeatures js_value js_value

text \<open>The adapter object: what its \<^verbatim>\<open>getMap()\<close> returns is all this file reads of it.\<close>

datatype mapbox_adapter = Adapter "nat js_ref"

fun adapter_getMap :: "mapbox_adapter \<Rightarrow> nat js_ref" where
  "adapter_getMap (Adapter m) = m"

text \<open>
  The instance. \<open>hooks_noop\<close> records that the constructor has replaced the four lifecycle
  hooks by \<^verbatim>\<open>noop\<close> (lines 92-97). \<open>calls\<close>, \<open>console\<close> and \<open>notifications\<close> are the
  observable effects: engine calls, \<^verbatim>\<open>console.error\<close> lines, and the
  \<^verbatim>\<open>onViewportChange(newViewState, {}, oldViewState)\<close> calls as (new, old) pairs.
\<close>

record component =
  c_props :: props
  c_state :: component_state
  hooks_noop :: bool
  c_mapbox :: "mapbox_adapter js_ref"
  c_map :: "nat js_ref"
  c_mapboxMap :: "nat js_ref"
  calls :: "engine_call list"
  console :: "string list"
  notifications :: "(js_value \<times> js_value) list"

section \<open>The imported modules\<close>

text \<open>
  The modules the file imports are not part of it; they are parameters of the model.
  \<^item> \<open>mapboxgl\<close>: \<open>None\<close> when the import is falsy, else what \<^verbatim>\<open>mapboxgl.supported()\<close> says;
  \<^item> \<open>normalizeStyle\<close> of \<^verbatim>\<open>../utils/style-utils\<close>;
  \<^item> \<open>checkVisibilityConstraints\<close> of \<^verbatim>\<open>../utils/map-constraints\<close>, applied to the object
    it is given (a value, or the props object) and the constraints;
  \<^item> \<open>newMapbox\<close>: the adapter that \<^verbatim>\<open>new Mapbox(config)\<close> builds from the props (with the
    normalized style) and the container;
  \<^item> \<open>getViewportProps\<close>: \<^verbatim>\<open>new MapState(Object.assign({}, props, {width, height})).getViewportProps()\<close>,
    which may throw.
\<close>

datatype constraint_subject = SubjectValue js_value | SubjectProps props

record externals =
  mapboxgl :: "bool option"
  normalizeStyle :: "style_descriptor \<Rightarrow> style_descriptor"
  checkVisibilityConstraints :: "constraint_subject \<Rightarrow> js_value \<Rightarrow> bool"
  newMapbox :: "props \<Rightarrow> nat js_ref \<Rightarrow> mapbox_adapter"
  getViewportProps :: "props \<Rightarrow> real \<Rightarrow> real \<Rightarrow> js_error + js_value"

section \<open>The component\<close>

definition TOKEN_DOC_URL :: string where
  "TOKEN_DOC_URL = ''https://uber.github.io/react-map-gl/#/Documentation/getting-started/about-mapbox-tokens''"

definition NO_TOKEN_WARNING :: string where
  "NO_TOKEN_WARNING = ''A valid API access token is required to use Mapbox data''"

definition UNAUTHORIZED_ERROR_CODE :: js_value where
  "UNAUTHORIZED_ERROR_CODE = JNum 401"

definition OVERLAY_CONTAINER_STYLE :: "(string \<times> js_value) list" where
  "OVERLAY_CONTAINER_STYLE =
     [(''position'', JStr ''absolute''), (''left'', JNum 0), (''top'', JNum 0),
      (''right'', JNum 0), (''bottom'', JNum 0), (''overflow'', JStr ''hidden'')]"

text \<open>A method returns a value or throws, and leaves the instance as it is at that point.\<close>

datatype 'a outcome = Return 'a | Throw js_error

text \<open>\<^verbatim>\<open>static supported()\<close>, as the condition \<^verbatim>\<open>!StaticMap.supported()\<close> reads it.\<close>

definition supported :: "externals \<Rightarrow> bool" where
  "supported ext = (case mapboxgl ext of None \<Rightarrow> False | Some s \<Rightarrow> s)"

text \<open>
  The constructor (lines 89-103). \<^verbatim>\<open>_queryParams\<close> is assigned and never read, and
  \<^verbatim>\<open>_mapbox\<close>, \<^verbatim>\<open>_map\<close> and \<^verbatim>\<open>_mapboxMap\<close> are not assigned at all: they read as
  \<^verbatim>\<open>undefined\<close> until \<^verbatim>\<open>componentDidMount\<close> and the ref callback run.
  \<^verbatim>\<open>getChildContext\<close> only builds a viewport object from the props and the stored size;
  it touches neither the engine nor the instance and is left out.
\<close>

definition constructor :: "externals \<Rightarrow> props \<Rightarrow> component" where
  "constructor ext p =
     \<lparr>c_props = p,
      c_state = \<lparr>st_width = 0, st_height = 0, accessTokenInvalid = False\<rparr>,
      hooks_noop = (\<not> supported ext),
      c_mapbox = RefUndefined,
      c_map = RefUndefined,
      c_mapboxMap = RefUndefined,
      calls = [],
      console = [],
      notifications = []\<rparr>"

definition componentDidMount :: "externals \<Rightarrow> component \<Rightarrow> unit outcome \<times> component" where
  "componentDidMount ext c =
     (if hooks_noop c then (Return (), c)
      else
        let config = (c_props c)\<lparr>mapStyle := normalizeStyle ext (mapStyle (c_props c))\<rparr>;
            a = newMapbox ext config (c_mapboxMap c)
        in (Return (),
            c\<lparr>c_mapbox := Ref a, c_map := adapter_getMap a,
              calls := calls c @ [NewMapbox config (c_mapboxMap c), GetMap]\<rparr>))"

text \<open>
  \<^verbatim>\<open>_updateMapStyle\<close> (lines 185-191). The receiver \<^verbatim>\<open>this._map.setStyle\<close> is read before
  the arguments are evaluated; the \<^verbatim>\<open>diff\<close> option is read from \<^verbatim>\<open>this.props\<close>.
\<close>

definition updateMapStyle :: "externals \<Rightarrow> props \<Rightarrow> props \<Rightarrow> component \<Rightarrow> unit outcome \<times> component" where
  "updateMapStyle ext oldProps newProps c =
     (if \<not> strict_eq (mapStyle newProps) (mapStyle oldProps) then
        (case c_map c of
           Ref m \<Rightarrow>
             (Return (),
              c\<lparr>calls := calls c @
                   [SetStyle (normalizeStyle ext (mapStyle newProps))
                      (\<not> preventStyleDiffing (c_props c))]\<rparr>)
         | RefUndefined \<Rightarrow> (Throw TypeError, c)
         | RefNull \<Rightarrow> (Throw TypeError, c))
      else (Return (), c))"

definition componentWillReceiveProps :: "externals \<Rightarrow> props \<Rightarrow> component \<Rightarrow> unit outcome \<times> component" where
  "componentWillReceiveProps ext newProps c =
     (if hooks_noop c then (Return (), c)
      else
        (case c_mapbox c of
           Ref a \<Rightarrow> updateMapStyle ext (c_props c) newProps (c\<lparr>calls := calls c @ [SetProps newProps]\<rparr>)
         | RefUndefined \<Rightarrow> (Throw TypeError, c)
         | RefNull \<Rightarrow> (Throw TypeError, c)))"

text \<open>\<^verbatim>\<open>_updateMapSize\<close> (lines 176-183), called with the previous and the current state.\<close>

definition updateMapSize :: "component_state \<Rightarrow> component_state \<Rightarrow> component \<Rightarrow> unit outcome \<times> component" where
  "updateMapSize oldProps newProps c =
     (let sizeChanged = (st_width oldProps \<noteq> st_width newProps \<or> st_height oldProps \<noteq> st_height newProps)
      in if sizeChanged then
           (case c_map c of
              Ref m \<Rightarrow> (Return (), c\<lparr>calls := calls c @ [Resize]\<rparr>)
            | RefUndefined \<Rightarrow> (Throw TypeError, c)
            | RefNull \<Rightarrow> (Throw TypeError, c))
         else (Return (), c))"

definition componentDidUpdate :: "props \<Rightarrow> component_state \<Rightarrow> component \<Rightarrow> unit outcome \<times> component" where
  "componentDidUpdate prevProps prevState c =
     (if hooks_noop c then (Return (), c) else updateMapSize prevState (c_state c) c)"

definition componentWillUnmount :: "component \<Rightarrow> unit outcome \<times> component" where
  "componentWillUnmount c =
     (if hooks_noop c then (Return (), c)
      else
        (case c_mapbox c of
           Ref a \<Rightarrow> (Return (), c\<lparr>calls := calls c @ [Finalize], c_mapbox := RefNull, c_map := RefNull\<rparr>)
         | RefUndefined \<Rightarrow> (Throw TypeError, c)
         | RefNull \<Rightarrow> (Throw TypeError, c)))"

definition getMap :: "component \<Rightarrow> nat js_ref" where
  "getMap c = c_map c"

text \<open>
  \<^verbatim>\<open>queryRenderedFeatures\<close> (lines 155-157); \<^verbatim>\<open>options\<close> defaults to \<^verbatim>\<open>{}\<close> when it is
  \<^verbatim>\<open>undefined\<close>. The features returned are the engine's; the model records the call.
\<close>

definition queryRenderedFeatures :: "js_value \<Rightarrow> js_value \<Rightarrow> component \<Rightarrow> unit outcome \<times> component" where
  "queryRenderedFeatures geometry options c =
     (let opts = (if options = JUndefined then JObj [] else options)
      in case c_map c of
           Ref m \<Rightarrow> (Return (), c\<lparr>calls := calls c @ [QueryRenderedFeatures geometry opts]\<rparr>)
         | RefUndefined \<Rightarrow> (Throw TypeError, c)
         | RefNull \<Rightarrow> (Throw TypeError, c))"

text \<open>
  \<^verbatim>\<open>this.setState(partial)\<close> merges the partial state into the current one. \<open>c_state\<close> is
  the state with every accepted update merged in, that is, the state the next render reads.
  The framework accepts updates only while it has the instance mounted; what \<open>c_state\<close>
  holds after an unmount is therefore not what the framework keeps, and no property below
  concludes anything about it.
\<close>

definition onResize :: "externals \<Rightarrow> real \<Rightarrow> real \<Rightarrow> component \<Rightarrow> unit outcome \<times> component" where
  "onResize ext w h c =
     (let resized = c\<lparr>c_state := (c_state c)\<lparr>st_width := w, st_height := h\<rparr>\<rparr>
      in if truthy (onViewportChange (c_props c)) then
           (case getViewportProps ext (c_props c) (st_width (c_state c)) (st_height (c_state c)) of
              Inl e \<Rightarrow> (Throw e, c)
            | Inr oldViewState \<Rightarrow>
                (case getViewportProps ext (c_props c) w h of
                   Inl e \<Rightarrow> (Throw e, c)
                 | Inr newViewState \<Rightarrow>
                     (Return (),
                      resized\<lparr>notifications := notifications c @ [(newViewState, oldViewState)]\<rparr>)))
         else (Return (), resized))"

definition mapboxMapLoaded :: "nat js_ref \<Rightarrow> component \<Rightarrow> component" where
  "mapboxMapLoaded ref c = c\<lparr>c_mapboxMap := ref\<rparr>"

text \<open>
  Line 199, \<^verbatim>\<open>evt.error && evt.error.status || evt.status\<close>: \<^verbatim>\<open>a && b\<close> is \<^verbatim>\<open>b\<close> when
  \<^verbatim>\<open>a\<close> is truthy and \<^verbatim>\<open>a\<close> otherwise, \<^verbatim>\<open>a || b\<close> is \<^verbatim>\<open>a\<close> when \<^verbatim>\<open>a\<close> is truthy and
  \<^verbatim>\<open>b\<close> otherwise, and the right operand is evaluated only when it is the result.
\<close>

definition statusCode :: "js_value \<Rightarrow> js_error + js_value" where
  "statusCode evt =
     (case get_prop evt ''error'' of
        Inl e \<Rightarrow> Inl e
      | Inr err \<Rightarrow>
          (case (if truthy err then get_prop err ''status'' else Inr err) of
             Inl e \<Rightarrow> Inl e
           | Inr lhs \<Rightarrow> (if truthy lhs then Inr lhs else get_prop evt ''status'')))"

definition mapboxMapError :: "js_value \<Rightarrow> component \<Rightarrow> unit outcome \<times> component" where
  "mapboxMapError evt c =
     (case statusCode evt of
        Inl e \<Rightarrow> (Throw e, c)
      | Inr code \<Rightarrow>
          (if code = UNAUTHORIZED_ERROR_CODE \<and> \<not> accessTokenInvalid (c_state c) then
             (Return (),
              c\<lparr>console := console c @ [NO_TOKEN_WARNING],
                c_state := (c_state c)\<lparr>accessTokenInvalid := True\<rparr>\<rparr>)
           else (Return (), c)))"

definition renderNoTokenWarning :: "component \<Rightarrow> element" where
  "renderNoTokenWarning c =
     (if accessTokenInvalid (c_state c) \<and> \<not> disableTokenWarning (c_props c) then
        Element ''div''
          [(''key'', JStr ''warning''), (''id'', JStr ''no-token-warning''),
           (''style'', JObj [(''position'', JStr ''absolute''), (''left'', JNum 0), (''top'', JNum 0)])]
          [Element ''h3'' [(''key'', JStr ''header'')] [TextNode NO_TOKEN_WARNING],
           Element ''div'' [(''key'', JStr ''text'')]
             [TextNode ''For information on setting up your basemap, read''],
           Element ''a'' [(''key'', JStr ''link''), (''href'', JStr TOKEN_DOC_URL)]
             [TextNode ''Note on Map Tokens'']]
      else NullNode)"

text \<open>The value of \<^verbatim>\<open>visible\<close> in \<^verbatim>\<open>render\<close> (lines 234-235).\<close>

definition render_visible :: "externals \<Rightarrow> component \<Rightarrow> bool" where
  "render_visible ext c =
     (visible (c_props c) \<and>
      checkVisibilityConstraints ext
        (if truthy (viewState (c_props c)) then SubjectValue (viewState (c_props c))
         else SubjectProps (c_props c))
        (visibilityConstraints (c_props c)))"

definition render :: "externals \<Rightarrow> component \<Rightarrow> element" where
  "render ext c =
     (let merged = assign (assign [] (own_fields (style (c_props c))))
                     [(''width'', width (c_props c)), (''height'', height (c_props c))];
          mapContainerStyle =
            (if \<not> truthy (field merged ''position'') \<or> field merged ''position'' = JStr ''static''
             then set_field ''position'' (JStr ''relative'') merged else merged);
          mapStyle' =
            [(''width'', JNum (st_width (c_state c))), (''height'', JNum (st_height (c_state c))),
             (''visibility'', JStr (if render_visible ext c then ''visible'' else ''hidden''))]
      in Element ''div'' [(''key'', JStr ''map-container''), (''style'', JObj mapContainerStyle)]
           [Element ''div''
              [(''key'', JStr ''map-mapbox''), (''ref'', JFun ''_mapboxMapLoaded''),
               (''style'', JObj mapStyle'), (''className'', className (c_props c))] [],
            Element ''div''
              [(''key'', JStr ''map-overlays''), (''className'', JStr ''overlays''),
               (''style'', JObj OVERLAY_CONTAINER_STYLE)]
              (children (c_props c)),
            Element ''AutoSizer''
              [(''key'', JStr ''autosizer''), (''onResize'', JFun ''_onResize''),
               (''children'', JFun ''noop'')] [],
            renderNoTokenWarning c])"

section \<open>Operations on a mounted instance\<close>

text \<open>
  Everything that can be dispatched to an instance: the four lifecycle hooks, the
  framework's assignment of the new props to \<^verbatim>\<open>this.props\<close> between
  \<^verbatim>\<open>componentWillReceiveProps\<close> and \<^verbatim>\<open>render\<close>, the two public methods, and the callbacks
  the instance hands out (\<^verbatim>\<open>_onResize\<close>, \<^verbatim>\<open>_mapboxMapLoaded\<close>, \<^verbatim>\<open>_mapboxMapError\<close>).
\<close>

datatype operation =
    OpDidMount
  | OpWillReceiveProps props
  | OpAssignProps props
  | OpRender
  | OpDidUpdate props component_state
  | OpWillUnmount
  | OpGetMap
  | OpQueryRenderedFeatures js_value js_value
  | OpOnResize real real
  | OpMapboxMapLoaded "nat js_ref"
  | OpMapboxMapError js_value

fun step :: "externals \<Rightarrow> component \<Rightarrow> operation \<Rightarrow> unit outcome \<times> component" where
  "step ext c OpDidMount = componentDidMount ext c"
| "step ext c (OpWillReceiveProps newProps) = componentWillReceiveProps ext newProps c"
| "step ext c (OpAssignProps newProps) = (Return (), c\<lparr>c_props := newProps\<rparr>)"
| "step ext c OpRender = (Return (), c)"
| "step ext c (OpDidUpdate prevProps prevState) = componentDidUpdate prevProps prevState c"
| "step ext c OpWillUnmount = componentWillUnmount c"
| "step ext c OpGetMap = (Return (), c)"
| "step ext c (OpQueryRenderedFeatures geometry options) = queryRenderedFeatures geometry options c"
| "step ext c (OpOnResize w h) = onResize ext w h c"
| "step ext c (OpMapboxMapLoaded ref) = (Return (), mapboxMapLoaded ref c)"
| "step ext c (OpMapboxMapError evt) = mapboxMapError evt c"

text \<open>A sequence of operations; an exception goes to the caller and the instance lives on.\<close>

fun run :: "externals \<Rightarrow> component \<Rightarrow> operation list \<Rightarrow> component" where
  "run ext c [] = c"
| "run ext c (op # ops) = run ext (snd (step ext c op)) ops"

fun is_lifecycle :: "operation \<Rightarrow> bool" where
  "is_lifecycle OpDidMount = True"
| "is_lifecycle (OpWillReceiveProps newProps) = True"
| "is_lifecycle (OpDidUpdate prevProps prevState) = True"
| "is_lifecycle OpWillUnmount = True"
| "is_lifecycle op = False"

section \<open>Observations used in the properties\<close>

text \<open>The style swaps among the engine calls, and the operations that are not lifecycle hooks.\<close>

fun style_swaps :: "engine_call list \<Rightarrow> (style_descriptor \<times> bool) list" where
  "style_swaps [] = []"
| "style_swaps (SetStyle s d # cs) = (s, d) # style_swaps cs"
| "style_swaps (x # cs) = style_swaps cs"

text \<open>
  The children of the container, by position: the mapping surface, the overlay region, the
  size observer, and last the warning overlay or \<^verbatim>\<open>null\<close>.
\<close>

definition map_surface :: "element \<Rightarrow> element" where
  "map_surface e = (case el_children e of [] \<Rightarrow> NullNode | s # cs \<Rightarrow> s)"

definition overlay_region :: "element \<Rightarrow> element" where
  "overlay_region e = (case el_children e of s # r # cs \<Rightarrow> r | cs \<Rightarrow> NullNode)"

definition warning_slot :: "element \<Rightarrow> element" where
  "warning_slot e = (case el_children e of [s, r, z, w] \<Rightarrow> w | cs \<Rightarrow> NullNode)"

text \<open>The object that \<^verbatim>\<open>this.props.viewState || this.props\<close> denotes.\<close>

definition constraint_subject_of :: "props \<Rightarrow> constraint_subject" where
  "constraint_subject_of p = (if truthy (viewState p) then SubjectValue (viewState p) else SubjectProps p)"

section \<open>Sample inputs\<close>

text \<open>
  Concrete props (the defaults of lines 74-78 with a size and a view), and concrete stand-ins
  for the imported modules, on which the model is evaluated: a style normalizer that passes
  its argument through, a constraint check on \<^verbatim>\<open>minZoom\<close>, an adapter whose map is object 1.
\<close>

definition sample_props :: props where
  "sample_props =
     \<lparr>mapStyle = StyleString ''mapbox://styles/mapbox/light-v8'',
      preventStyleDiffing = False,
      disableTokenWarning = False,
      visible = True,
      width = JNum 800,
      height = JNum 600,
      visibilityConstraints = JObj [(''minZoom'', JNum 5)],
      viewState = JUndefined,
      longitude = JNum (-122),
      latitude = JNum 37,
      zoom = JNum 11,
      bearing = JNum 0,
      pitch = JNum 0,
      className = JUndefined,
      style = JUndefined,
      children = [TextNode ''overlay''],
      onViewportChange = JUndefined\<rparr>"

fun subject_zoom :: "constraint_subject \<Rightarrow> js_value" where
  "subject_zoom (SubjectValue v) = field (own_fields v) ''zoom''"
| "subject_zoom (SubjectProps p) = zoom p"

definition sample_check :: "constraint_subject \<Rightarrow> js_value \<Rightarrow> bool" where
  "sample_check subject constraints =
     (case (subject_zoom subject, field (own_fields constraints) ''minZoom'') of
        (JNum z, JNum m) \<Rightarrow> m \<le> z
      | other \<Rightarrow> True)"

definition sample_ext :: externals where
  "sample_ext =
     \<lparr>mapboxgl = Some True,
      normalizeStyle = (\<lambda>s. s),
      checkVisibilityConstraints = sample_check,
      newMapbox = (\<lambda>config container. Adapter (Ref 1)),
      getViewportProps = (\<lambda>p w h. Inr (JObj [(''width'', JNum w), (''height'', JNum h)]))\<rparr>"

definition unsupported_ext :: externals where
  "unsupported_ext = sample_ext\<lparr>mapboxgl := Some False\<rparr>"

definition sample_mounted :: component where
  "sample_mounted = snd (componentDidMount sample_ext (constructor sample_ext sample_props))"

definition event_401 :: js_value where
  "event_401 = JObj [(''error'', JObj [(''status'', JNum 401)])]"

definition sample_restyled :: props where
  "sample_restyled =
     sample_props\<lparr>mapStyle := StyleString ''mapbox://styles/mapbox/dark-v9'',
                   preventStyleDiffing := True\<rparr>"

definition sample_flagged :: component where
  "sample_flagged = snd (mapboxMapError event_401 sample_mounted)"

definition sample_resized :: component where
  "sample_resized = snd (onResize sample_ext 800 600 sample_mounted)"

definition sample_zoomed_out :: component where
  "sample_zoomed_out = sample_mounted\<lparr>c_props := sample_props\<lparr>zoom := JNum 3\<rparr>\<rparr>"

definition sample_with_viewState :: component where
  "sample_with_viewState =
     sample_mounted\<lparr>c_props := sample_props\<lparr>viewState := JObj [(''zoom'', JNum 3)]\<rparr>\<rparr>"




definition unsupported_lifetime :: "operation list" where
  "unsupported_lifetime =
     [OpRender, OpDidMount, OpOnResize 800 600,
      OpDidUpdate sample_props \<lparr>st_width = 0, st_height = 0, accessTokenInvalid = False\<rparr>,
      OpWillReceiveProps sample_restyled, OpAssignProps sample_restyled, OpRender, OpWillUnmount]"

section \<open>Auxiliary facts\<close>

lemmas hook_defs = componentDidMount_def componentWillReceiveProps_def updateMapStyle_def
  componentDidUpdate_def updateMapSize_def componentWillUnmount_def queryRenderedFeatures_def
  onResize_def mapboxMapLoaded_def mapboxMapError_def

lemma statusCode_obj:
  "statusCode (JObj fs) =
     Inr (case get_prop (field fs ''error'') ''status'' of
            Inl e \<Rightarrow> field fs ''status''
          | Inr s \<Rightarrow> (if truthy s then s else field fs ''status''))"
  by (cases "field fs ''error''") (simp_all add: statusCode_def)




lemma style_swaps_append: "style_swaps (xs @ ys) = style_swaps xs @ style_swaps ys"
  by (induction xs rule: style_swaps.induct) simp_all

text \<open>The diff option of a style swap is read from the props the instance holds.\<close>

lemma updateMapStyle_diff:
  "c_map c = Ref m \<Longrightarrow> \<not> strict_eq (mapStyle newProps) (mapStyle oldProps) \<Longrightarrow>
   calls (snd (updateMapStyle ext oldProps newProps c)) =
     calls c @ [SetStyle (normalizeStyle ext (mapStyle newProps)) (\<not> preventStyleDiffing (c_props c))]"
  by (simp add: updateMapStyle_def)

subsection \<open>The rendered tree\<close>

lemma render_children:
  "el_children (render ext c) =
     [Element ''div''
        [(''key'', JStr ''map-mapbox''), (''ref'', JFun ''_mapboxMapLoaded''),
         (''style'', JObj [(''width'', JNum (st_width (c_state c))),
                           (''height'', JNum (st_height (c_state c))),
                           (''visibility'', JStr (if render_visible ext c then ''visible'' else ''hidden''))]),
         (''className'', className (c_props c))] [],
      Element ''div''
        [(''key'', JStr ''map-overlays''), (''className'', JStr ''overlays''),
         (''style'', JObj OVERLAY_CONTAINER_STYLE)]
        (children (c_props c)),
      Element ''AutoSizer''
        [(''key'', JStr ''autosizer''), (''onResize'', JFun ''_onResize''),
         (''children'', JFun ''noop'')] [],
      renderNoTokenWarning c]"
  by (simp add: render_def Let_def)

lemma render_key: "el_key (render ext c) = JStr ''map-container''"
  by (simp add: render_def Let_def el_key_def field_def)

lemma surface_visibility:
  "el_style (map_surface (render ext c)) ''visibility'' =
     JStr (if render_visible ext c then ''visible'' else ''hidden'')"
  by (simp add: render_children map_surface_def el_style_def field_def)

lemma surface_key: "el_key (map_surface (render ext c)) = JStr ''map-mapbox''"
  by (simp add: render_children map_surface_def el_key_def field_def)

lemma overlay_children: "el_children (overlay_region (render ext c)) = children (c_props c)"
  by (simp add: render_children overlay_region_def)

lemma warning_slot_render: "warning_slot (render ext c) = renderNoTokenWarning c"
  by (simp add: warning_slot_def render_children)

subsection \<open>Invariants of operation sequences\<close>



lemma step_keeps_flag:
  "accessTokenInvalid (c_state c) \<Longrightarrow>
   accessTokenInvalid (c_state (snd (step ext c op))) \<and> console (snd (step ext c op)) = console c"
  by (cases op) (auto simp: hook_defs Let_def split: js_ref.splits sum.splits)

lemma step_unsupported:
  "hooks_noop c \<and> c_map c = RefUndefined \<and> calls c = [] \<Longrightarrow>
   hooks_noop (snd (step ext c op)) \<and> c_map (snd (step ext c op)) = RefUndefined \<and>
   calls (snd (step ext c op)) = []"
  by (cases op) (auto simp: hook_defs Let_def split: sum.splits)

lemma run_unsupported:
  "hooks_noop c \<and> c_map c = RefUndefined \<and> calls c = [] \<Longrightarrow>
   hooks_noop (run ext c ops) \<and> c_map (run ext c ops) = RefUndefined \<and> calls (run ext c ops) = []"
proof (induction ops arbitrary: c)
  case Nil
  then show ?case by simp
next
  case (Cons op ops)
  from Cons.IH [OF step_unsupported [OF Cons.prems]] show ?case by simp
qed

lemma lifecycle_noop: "hooks_noop c \<Longrightarrow> is_lifecycle op \<Longrightarrow> step ext c op = (Return (), c)"
  by (cases op)
     (simp_all add: componentDidMount_def componentWillReceiveProps_def componentDidUpdate_def
        componentWillUnmount_def)

subsection \<open>The sample instance\<close>

lemma sample_mounted_eq:
  "sample_mounted =
     \<lparr>c_props = sample_props,
      c_state = \<lparr>st_width = 0, st_height = 0, accessTokenInvalid = False\<rparr>,
      hooks_noop = False,
      c_mapbox = Ref (Adapter (Ref 1)),
      c_map = Ref 1,
      c_mapboxMap = RefUndefined,
      calls = [NewMapbox sample_props RefUndefined, GetMap],
      console = [],
      notifications = []\<rparr>"
  by (simp add: sample_mounted_def componentDidMount_def constructor_def supported_def
      sample_ext_def Let_def sample_props_def)

lemma statusCode_event_401: "statusCode event_401 = Inr (JNum 401)"
  by (simp add: event_401_def statusCode_obj field_def)

lemma sample_flagged_eq:
  "sample_flagged =
     sample_mounted\<lparr>console := [NO_TOKEN_WARNING],
                     c_state := \<lparr>st_width = 0, st_height = 0, accessTokenInvalid = True\<rparr>\<rparr>"
  by (simp add: sample_flagged_def mapboxMapError_def statusCode_event_401
      UNAUTHORIZED_ERROR_CODE_def sample_mounted_eq)

lemma sample_resized_eq:
  "sample_resized =
     sample_mounted\<lparr>c_state := \<lparr>st_width = 800, st_height = 600, accessTokenInvalid = False\<rparr>\<rparr>"
  by (simp add: sample_resized_def onResize_def sample_mounted_eq sample_props_def Let_def)

section \<open>Unmount\<close>




section \<open>The invalid-token flag\<close>

text \<open>
  C2. Once \<^verbatim>\<open>accessTokenInvalid\<close> is set, no sequence of operations on the instance clears
  it, and none adds a line to the diagnostic log: in particular every further 401 event is
  silent. (\<^verbatim>\<open>setState\<close> is taken to commit at once, as it does for calls made outside the
  framework's own event handlers.)
\<close>

theorem invalid_token_flag_monotone:
  "accessTokenInvalid (c_state c) \<Longrightarrow>
   accessTokenInvalid (c_state (run ext c ops)) \<and> console (run ext c ops) = console c"
proof (induction ops arbitrary: c)
  case Nil
  then show ?case by simp
next
  case (Cons op ops)
  from step_keeps_flag [OF Cons.prems, of ext op]
  have a: "accessTokenInvalid (c_state (snd (step ext c op)))"
    and b: "console (snd (step ext c op)) = console c" by simp_all
  from Cons.IH [OF a] b show ?case by simp
qed

theorem invalid_token_flag_monotone_witness:
  "accessTokenInvalid (c_state sample_flagged) \<and>
   accessTokenInvalid (c_state (run sample_ext sample_flagged
      [OpMapboxMapError event_401, OpOnResize 800 600, OpMapboxMapError event_401])) \<and>
   console (run sample_ext sample_flagged
      [OpMapboxMapError event_401, OpOnResize 800 600, OpMapboxMapError event_401])
     = [NO_TOKEN_WARNING]"
proof -
  have h: "accessTokenInvalid (c_state sample_flagged)" by (simp add: sample_flagged_eq)
  have c: "console sample_flagged = [NO_TOKEN_WARNING]" by (simp add: sample_flagged_eq)
  note m = invalid_token_flag_monotone [OF h, where ext = sample_ext
      and ops = "[OpMapboxMapError event_401, OpOnResize 800 600, OpMapboxMapError event_401]"]
  from conjunct1 [OF m] conjunct2 [OF m] h c show ?thesis by (simp only: simp_thms)
qed

section \<open>Style swaps\<close>

text \<open>
  C3. A prop update whose new \<^verbatim>\<open>mapStyle\<close> is equal to the previous one under \<^verbatim>\<open>!==\<close> (the
  policy of the code: strings by value, objects by identity) issues no \<^verbatim>\<open>setStyle\<close>; a
  \<^verbatim>\<open>setStyle\<close> is issued only when the descriptor differs, and on a mounted instance it then
  is issued, with the normalized new style.
\<close>

theorem style_swap_only_on_change:
  "(strict_eq (mapStyle newProps) (mapStyle (c_props c)) \<longrightarrow>
      style_swaps (calls (snd (componentWillReceiveProps ext newProps c))) = style_swaps (calls c))
   \<and> (style_swaps (calls (snd (componentWillReceiveProps ext newProps c))) \<noteq> style_swaps (calls c) \<longrightarrow>
      \<not> strict_eq (mapStyle newProps) (mapStyle (c_props c)))
   \<and> (\<not> hooks_noop c \<and> c_mapbox c = Ref a \<and> c_map c = Ref m \<and>
      \<not> strict_eq (mapStyle newProps) (mapStyle (c_props c)) \<longrightarrow>
      fst (componentWillReceiveProps ext newProps c) = Return () \<and>
      map fst (style_swaps (calls (snd (componentWillReceiveProps ext newProps c)))) =
        map fst (style_swaps (calls c)) @ [normalizeStyle ext (mapStyle newProps)])"
  by (auto simp: componentWillReceiveProps_def updateMapStyle_def style_swaps_append
           split: js_ref.splits)

theorem style_swap_only_on_change_witness:
  "strict_eq (mapStyle sample_props) (mapStyle (c_props sample_mounted)) \<and>
   style_swaps (calls (snd (componentWillReceiveProps sample_ext sample_props sample_mounted))) = [] \<and>
   \<not> strict_eq (mapStyle sample_restyled) (mapStyle (c_props sample_mounted)) \<and>
   map fst (style_swaps (calls (snd (componentWillReceiveProps sample_ext sample_restyled sample_mounted))))
     = [StyleString ''mapbox://styles/mapbox/dark-v9'']"
proof -
  have same: "strict_eq (mapStyle sample_props) (mapStyle (c_props sample_mounted))"
    by (simp add: sample_mounted_eq sample_props_def)
  have differs: "\<not> strict_eq (mapStyle sample_restyled) (mapStyle (c_props sample_mounted))"
    by (simp add: sample_mounted_eq sample_props_def sample_restyled_def)
  have live: "\<not> hooks_noop sample_mounted \<and> c_mapbox sample_mounted = Ref (Adapter (Ref 1)) \<and>
      c_map sample_mounted = Ref 1"
    by (simp add: sample_mounted_eq)
  have none: "style_swaps (calls sample_mounted) = []" by (simp add: sample_mounted_eq)
  have norm: "normalizeStyle sample_ext (mapStyle sample_restyled) =
      StyleString ''mapbox://styles/mapbox/dark-v9''"
    by (simp add: sample_ext_def sample_restyled_def)
  note t1 = style_swap_only_on_change
      [where newProps = sample_props and c = sample_mounted and ext = sample_ext]
  note t2 = style_swap_only_on_change
      [where newProps = sample_restyled and c = sample_mounted and ext = sample_ext
         and a = "Adapter (Ref 1)" and m = 1]
  from conjunct1 [OF t1] same none
  have a: "style_swaps (calls (snd (componentWillReceiveProps sample_ext sample_props sample_mounted))) = []"
    by simp
  from conjunct2 [OF conjunct2 [OF t2]] live differs none norm
  have b: "map fst (style_swaps (calls (snd (componentWillReceiveProps sample_ext sample_restyled sample_mounted))))
     = [StyleString ''mapbox://styles/mapbox/dark-v9'']"
    by simp
  from same a differs b show ?thesis by blast
qed

section \<open>Resizing\<close>

text \<open>
  C4. After an update in which the stored width and height are both unchanged,
  \<^verbatim>\<open>componentDidUpdate\<close> makes no call at all; after an update in which the stored width or
  height changed, an instance that holds a map calls \<^verbatim>\<open>resize()\<close> exactly once.
\<close>

theorem resize_exactly_on_size_change:
  "(st_width prevState = st_width (c_state c) \<and> st_height prevState = st_height (c_state c) \<longrightarrow>
      componentDidUpdate prevProps prevState c = (Return (), c))
   \<and> (\<not> hooks_noop c \<and> c_map c = Ref m \<and>
      (st_width prevState \<noteq> st_width (c_state c) \<or> st_height prevState \<noteq> st_height (c_state c)) \<longrightarrow>
      componentDidUpdate prevProps prevState c = (Return (), c\<lparr>calls := calls c @ [Resize]\<rparr>))"
  by (auto simp: componentDidUpdate_def updateMapSize_def Let_def)

theorem resize_exactly_on_size_change_witness:
  "calls (snd (componentDidUpdate sample_props (c_state sample_resized) sample_resized))
     = [NewMapbox sample_props RefUndefined, GetMap] \<and>
   st_width (c_state sample_mounted) \<noteq> st_width (c_state sample_resized) \<and>
   calls (snd (componentDidUpdate sample_props (c_state sample_mounted) sample_resized))
     = [NewMapbox sample_props RefUndefined, GetMap, Resize]"
proof -
  have live: "\<not> hooks_noop sample_resized \<and> c_map sample_resized = Ref 1"
    by (simp add: sample_resized_eq sample_mounted_eq)
  have changed: "st_width (c_state sample_mounted) \<noteq> st_width (c_state sample_resized)"
    by (simp add: sample_resized_eq sample_mounted_eq)
  have c: "calls sample_resized = [NewMapbox sample_props RefUndefined, GetMap]"
    by (simp add: sample_resized_eq sample_mounted_eq)
  note t1 = resize_exactly_on_size_change
      [where prevState = "c_state sample_resized" and c = sample_resized
         and prevProps = sample_props]
  note t2 = resize_exactly_on_size_change
      [where prevState = "c_state sample_mounted" and c = sample_resized
         and prevProps = sample_props and m = 1]
  from conjunct1 [OF t1] c
  have a: "calls (snd (componentDidUpdate sample_props (c_state sample_resized) sample_resized))
     = [NewMapbox sample_props RefUndefined, GetMap]"
    by simp
  from conjunct2 [OF t2] live changed c
  have b: "calls (snd (componentDidUpdate sample_props (c_state sample_mounted) sample_resized))
     = [NewMapbox sample_props RefUndefined, GetMap, Resize]"
    by simp
  from a changed b show ?thesis by blast
qed

section \<open>The diff option of a style swap\<close>

text \<open>
  C5. The \<^verbatim>\<open>diff\<close> option of a style swap should be the negation of the
  \<^verbatim>\<open>preventStyleDiffing\<close> flag that comes with the update. The code reads the flag from
  \<^verbatim>\<open>this.props\<close>, which in \<^verbatim>\<open>componentWillReceiveProps\<close> still holds the previous
  props: an update that changes the style and sets \<^verbatim>\<open>preventStyleDiffing\<close> swaps the
  style with \<^verbatim>\<open>diff: true\<close>.
\<close>

theorem stale_diff_flag:
  "preventStyleDiffing sample_restyled \<and>
   calls (snd (componentWillReceiveProps sample_ext sample_restyled sample_mounted))
   = [NewMapbox sample_props RefUndefined, GetMap,
      SetProps sample_restyled,
      SetStyle (StyleString ''mapbox://styles/mapbox/dark-v9'') True]"
  by (simp add: sample_mounted_eq componentWillReceiveProps_def updateMapStyle_def sample_ext_def
      sample_props_def sample_restyled_def)

section \<open>The first authorization failure\<close>

text \<open>
  C6. An error event whose status code is 401, arriving at a mounted instance (one that
  holds the adapter that reports the event) while \<^verbatim>\<open>accessTokenInvalid\<close> is false, emits
  exactly one diagnostic line and sets the flag. The next render, whatever props it runs
  with, has the warning overlay as the last child of the container, that is the
  \<^verbatim>\<open>no-token-warning\<close> element with its heading, its text and its link to the token
  documentation, exactly when \<^verbatim>\<open>disableTokenWarning\<close> is not set, and \<^verbatim>\<open>null\<close> in its place
  otherwise; with \<^verbatim>\<open>disableTokenWarning\<close> set no render of any instance has the overlay.
\<close>

theorem first_401_logs_once_and_warns:
  assumes "statusCode evt = Inr (JNum 401)" and "\<not> accessTokenInvalid (c_state c)"
    and "c_mapbox c = Ref a"
  shows "fst (mapboxMapError evt c) = Return ()
         \<and> console (snd (mapboxMapError evt c)) = console c @ [NO_TOKEN_WARNING]
         \<and> accessTokenInvalid (c_state (snd (mapboxMapError evt c)))
         \<and> calls (snd (mapboxMapError evt c)) = calls c
         \<and> c_mapbox (snd (mapboxMapError evt c)) = Ref a
         \<and> (\<forall>p. warning_slot (render ext (snd (mapboxMapError evt c)\<lparr>c_props := p\<rparr>)) =
                  (if disableTokenWarning p then NullNode
                   else Element ''div''
                          [(''key'', JStr ''warning''), (''id'', JStr ''no-token-warning''),
                           (''style'', JObj [(''position'', JStr ''absolute''), (''left'', JNum 0),
                                             (''top'', JNum 0)])]
                          [Element ''h3'' [(''key'', JStr ''header'')]
                             [TextNode ''A valid API access token is required to use Mapbox data''],
                           Element ''div'' [(''key'', JStr ''text'')]
                             [TextNode ''For information on setting up your basemap, read''],
                           Element ''a''
                             [(''key'', JStr ''link''),
                              (''href'', JStr ''https://uber.github.io/react-map-gl/#/Documentation/getting-started/about-mapbox-tokens'')]
                             [TextNode ''Note on Map Tokens'']]))
         \<and> (\<forall>c'. disableTokenWarning (c_props c') \<longrightarrow> warning_slot (render ext c') = NullNode)"
  using assms
  by (simp add: mapboxMapError_def UNAUTHORIZED_ERROR_CODE_def warning_slot_render
      renderNoTokenWarning_def NO_TOKEN_WARNING_def TOKEN_DOC_URL_def)

theorem first_401_logs_once_and_warns_witness:
  "statusCode event_401 = Inr (JNum 401) \<and> \<not> accessTokenInvalid (c_state sample_mounted) \<and>
   c_mapbox sample_mounted = Ref (Adapter (Ref 1)) \<and>
   console (snd (mapboxMapError event_401 sample_mounted))
     = [''A valid API access token is required to use Mapbox data''] \<and>
   warning_slot (render sample_ext (snd (mapboxMapError event_401 sample_mounted)\<lparr>c_props := sample_props\<rparr>))
     = Element ''div''
         [(''key'', JStr ''warning''), (''id'', JStr ''no-token-warning''),
          (''style'', JObj [(''position'', JStr ''absolute''), (''left'', JNum 0), (''top'', JNum 0)])]
         [Element ''h3'' [(''key'', JStr ''header'')]
            [TextNode ''A valid API access token is required to use Mapbox data''],
          Element ''div'' [(''key'', JStr ''text'')]
            [TextNode ''For information on setting up your basemap, read''],
          Element ''a''
            [(''key'', JStr ''link''),
             (''href'', JStr ''https://uber.github.io/react-map-gl/#/Documentation/getting-started/about-mapbox-tokens'')]
            [TextNode ''Note on Map Tokens'']] \<and>
   warning_slot (render sample_ext
       (snd (mapboxMapError event_401 sample_mounted)\<lparr>c_props := sample_props\<lparr>disableTokenWarning := True\<rparr>\<rparr>))
     = NullNode"
proof -
  have h1: "statusCode event_401 = Inr (JNum 401)" by (rule statusCode_event_401)
  have h2: "\<not> accessTokenInvalid (c_state sample_mounted)" by (simp add: sample_mounted_eq)
  have h3: "c_mapbox sample_mounted = Ref (Adapter (Ref 1))" by (simp add: sample_mounted_eq)
  have c: "console sample_mounted = []" by (simp add: sample_mounted_eq)
  have d: "\<not> disableTokenWarning sample_props" by (simp add: sample_props_def)
  note t = first_401_logs_once_and_warns [OF h1 h2 h3, where ext = sample_ext]
  from conjunct1 [OF conjunct2 [OF t]] c
  have a: "console (snd (mapboxMapError event_401 sample_mounted))
     = [''A valid API access token is required to use Mapbox data'']"
    by (simp add: NO_TOKEN_WARNING_def)
  note w = conjunct1 [OF conjunct2 [OF conjunct2 [OF conjunct2 [OF conjunct2 [OF conjunct2 [OF t]]]]]]
  from spec [OF w, of sample_props] d
  have b: "warning_slot (render sample_ext (snd (mapboxMapError event_401 sample_mounted)\<lparr>c_props := sample_props\<rparr>))
     = Element ''div''
         [(''key'', JStr ''warning''), (''id'', JStr ''no-token-warning''),
          (''style'', JObj [(''position'', JStr ''absolute''), (''left'', JNum 0), (''top'', JNum 0)])]
         [Element ''h3'' [(''key'', JStr ''header'')]
            [TextNode ''A valid API access token is required to use Mapbox data''],
          Element ''div'' [(''key'', JStr ''text'')]
            [TextNode ''For information on setting up your basemap, read''],
          Element ''a''
            [(''key'', JStr ''link''),
             (''href'', JStr ''https://uber.github.io/react-map-gl/#/Documentation/getting-started/about-mapbox-tokens'')]
            [TextNode ''Note on Map Tokens'']]"
    by simp
  from spec [OF w, of "sample_props\<lparr>disableTokenWarning := True\<rparr>"]
  have b': "warning_slot (render sample_ext
       (snd (mapboxMapError event_401 sample_mounted)\<lparr>c_props := sample_props\<lparr>disableTokenWarning := True\<rparr>\<rparr>))
     = NullNode"
    by simp
  from h1 h2 h3 a b b' show ?thesis by (intro conjI)
qed

section \<open>Visibility\<close>

text \<open>
  C7. When the \<^verbatim>\<open>visible\<close> prop is false, or the visibility constraints evaluate to false
  on the object they are checked against, the mapping surface is rendered with visibility
  \<^verbatim>\<open>hidden\<close>; when \<^verbatim>\<open>visible\<close> is true and the constraints hold, with \<^verbatim>\<open>visible\<close>. Either
  way the surface element is the first child of the container, rendering changes nothing
  in the instance, and on an instance that holds a map \<^verbatim>\<open>getMap\<close> returns it and
  \<^verbatim>\<open>queryRenderedFeatures\<close> reaches it.
\<close>

theorem hidden_surface_stays_mounted:
  "(\<not> visible (c_props c) \<or>
    \<not> checkVisibilityConstraints ext (constraint_subject_of (c_props c)) (visibilityConstraints (c_props c)) \<longrightarrow>
      el_style (map_surface (render ext c)) ''visibility'' = JStr ''hidden'')
   \<and> (visible (c_props c) \<and>
      checkVisibilityConstraints ext (constraint_subject_of (c_props c)) (visibilityConstraints (c_props c)) \<longrightarrow>
      el_style (map_surface (render ext c)) ''visibility'' = JStr ''visible'')
   \<and> el_key (map_surface (render ext c)) = JStr ''map-mapbox''
   \<and> step ext c OpRender = (Return (), c)
   \<and> (c_map c = Ref m \<longrightarrow>
        getMap c = Ref m \<and>
        queryRenderedFeatures geometry options c =
          (Return (),
           c\<lparr>calls := calls c @
               [QueryRenderedFeatures geometry (if options = JUndefined then JObj [] else options)]\<rparr>))"
  by (simp add: surface_visibility surface_key render_visible_def constraint_subject_of_def
      getMap_def queryRenderedFeatures_def)

theorem hidden_surface_stays_mounted_witness:
  "\<not> checkVisibilityConstraints sample_ext (constraint_subject_of (c_props sample_zoomed_out))
       (visibilityConstraints (c_props sample_zoomed_out)) \<and>
   el_style (map_surface (render sample_ext sample_zoomed_out)) ''visibility'' = JStr ''hidden'' \<and>
   c_map sample_zoomed_out = Ref 1 \<and>
   getMap sample_zoomed_out = Ref 1 \<and>
   fst (queryRenderedFeatures (JObj []) JUndefined sample_zoomed_out) = Return () \<and>
   visible (c_props sample_mounted) \<and>
   checkVisibilityConstraints sample_ext (constraint_subject_of (c_props sample_mounted))
       (visibilityConstraints (c_props sample_mounted)) \<and>
   el_style (map_surface (render sample_ext sample_mounted)) ''visibility'' = JStr ''visible''"
proof -
  have off: "\<not> checkVisibilityConstraints sample_ext (constraint_subject_of (c_props sample_zoomed_out))
       (visibilityConstraints (c_props sample_zoomed_out))"
    by (simp add: sample_zoomed_out_def sample_mounted_eq sample_props_def sample_ext_def
        sample_check_def constraint_subject_of_def field_def)
  have live: "c_map sample_zoomed_out = Ref 1"
    by (simp add: sample_zoomed_out_def sample_mounted_eq)
  have vis: "visible (c_props sample_mounted)"
    by (simp add: sample_mounted_eq sample_props_def)
  have on: "checkVisibilityConstraints sample_ext (constraint_subject_of (c_props sample_mounted))
       (visibilityConstraints (c_props sample_mounted))"
    by (simp add: sample_mounted_eq sample_props_def sample_ext_def
        sample_check_def constraint_subject_of_def field_def)
  note t1 = hidden_surface_stays_mounted
      [where c = sample_zoomed_out and ext = sample_ext and m = 1 and geometry = "JObj []"
         and options = JUndefined]
  note t2 = hidden_surface_stays_mounted [where c = sample_mounted and ext = sample_ext]
  from conjunct1 [OF t1] off
  have a: "el_style (map_surface (render sample_ext sample_zoomed_out)) ''visibility'' = JStr ''hidden''"
    by blast
  from conjunct2 [OF conjunct2 [OF conjunct2 [OF conjunct2 [OF t1]]]] live
  have b: "getMap sample_zoomed_out = Ref 1"
    and q: "fst (queryRenderedFeatures (JObj []) JUndefined sample_zoomed_out) = Return ()"
    by simp_all
  from conjunct1 [OF conjunct2 [OF t2]] vis on
  have d: "el_style (map_surface (render sample_ext sample_mounted)) ''visibility'' = JStr ''visible''"
    by blast
  from off a live b q vis on d show ?thesis by blast
qed

section \<open>Unsupported environments\<close>

text \<open>
  C8. An instance constructed where the engine is unsupported never calls the engine,
  whatever operations follow (no adapter is constructed); each of the four lifecycle hooks
  returns normally and leaves the instance as it is, at every point of its lifetime; and
  \<^verbatim>\<open>render\<close> still produces the container with the caller's children in the overlay region.
\<close>

theorem unsupported_environment_is_inert:
  assumes "\<not> supported ext"
  shows "calls (run ext (constructor ext p) ops) = []
         \<and> (\<forall>op. is_lifecycle op \<longrightarrow>
              step ext (run ext (constructor ext p) ops) op = (Return (), run ext (constructor ext p) ops))
         \<and> el_key (render ext (run ext (constructor ext p) ops)) = JStr ''map-container''
         \<and> el_children (overlay_region (render ext (run ext (constructor ext p) ops))) =
             children (c_props (run ext (constructor ext p) ops))"
proof -
  have "hooks_noop (constructor ext p) \<and> c_map (constructor ext p) = RefUndefined \<and>
        calls (constructor ext p) = []"
    using assms by (simp add: constructor_def)
  from run_unsupported [OF this, of ext ops] show ?thesis
    by (simp add: lifecycle_noop render_key overlay_children)
qed

theorem unsupported_environment_is_inert_witness:
  "\<not> supported unsupported_ext \<and>
   calls (run unsupported_ext (constructor unsupported_ext sample_props) unsupported_lifetime) = [] \<and>
   is_lifecycle OpDidMount \<and>
   fst (step unsupported_ext (constructor unsupported_ext sample_props) OpDidMount) = Return () \<and>
   el_children (overlay_region (render unsupported_ext (constructor unsupported_ext sample_props)))
     = [TextNode ''overlay'']"
proof -
  have h: "\<not> supported unsupported_ext"
    by (simp add: supported_def unsupported_ext_def sample_ext_def)
  have l: "is_lifecycle OpDidMount" by simp
  have k: "children (c_props (constructor unsupported_ext sample_props)) = [TextNode ''overlay'']"
    by (simp add: constructor_def sample_props_def)
  note t = unsupported_environment_is_inert [OF h, where p = sample_props and ops = unsupported_lifetime]
  note t0 = unsupported_environment_is_inert [OF h, where p = sample_props and ops = "[]"]
  from conjunct1 [OF t]
  have a: "calls (run unsupported_ext (constructor unsupported_ext sample_props) unsupported_lifetime) = []" .
  from spec [OF conjunct1 [OF conjunct2 [OF t0]], of OpDidMount] l
  have b: "fst (step unsupported_ext (constructor unsupported_ext sample_props) OpDidMount) = Return ()"
    by simp
  from conjunct2 [OF conjunct2 [OF conjunct2 [OF t0]]] k
  have d: "el_children (overlay_region (render unsupported_ext (constructor unsupported_ext sample_props)))
     = [TextNode ''overlay'']"
    by simp
  from h a l b d show ?thesis by blast
qed

section \<open>The status code of an error event\<close>



section \<open>What the visibility constraints are checked against\<close>

text \<open>
  C10. The rendered visibility is \<^verbatim>\<open>visible\<close> exactly when the \<^verbatim>\<open>visible\<close> prop is true and
  the constraints hold of the \<^verbatim>\<open>viewState\<close> prop when one is supplied, and of the props
  object otherwise. With a \<^verbatim>\<open>viewState\<close> supplied, the top-level \<^verbatim>\<open>longitude\<close>,
  \<^verbatim>\<open>latitude\<close>, \<^verbatim>\<open>zoom\<close>, \<^verbatim>\<open>bearing\<close> and \<^verbatim>\<open>pitch\<close> have no influence on it.
\<close>

theorem visibility_subject:
  "el_style (map_surface (render ext c)) ''visibility'' =
     JStr (if visible (c_props c) \<and>
              checkVisibilityConstraints ext
                (if truthy (viewState (c_props c)) then SubjectValue (viewState (c_props c))
                 else SubjectProps (c_props c))
                (visibilityConstraints (c_props c))
           then ''visible'' else ''hidden'')
   \<and> (truthy (viewState (c_props c)) \<longrightarrow>
        el_style (map_surface (render ext
           (c\<lparr>c_props := (c_props c)\<lparr>longitude := lon, latitude := lat, zoom := z,
                                     bearing := b, pitch := pt\<rparr>\<rparr>))) ''visibility''
        = el_style (map_surface (render ext c)) ''visibility'')"
  by (simp add: surface_visibility render_visible_def)

theorem visibility_subject_witness:
  "truthy (viewState (c_props sample_with_viewState)) \<and>
   zoom (c_props sample_with_viewState) = JNum 11 \<and>
   el_style (map_surface (render sample_ext sample_with_viewState)) ''visibility'' = JStr ''hidden'' \<and>
   el_style (map_surface (render sample_ext
      (sample_with_viewState\<lparr>c_props := (c_props sample_with_viewState)
          \<lparr>longitude := JNum 2, latitude := JNum 48, zoom := JNum 1, bearing := JNum 90,
           pitch := JNum 30\<rparr>\<rparr>))) ''visibility'' = JStr ''hidden''"
proof -
  have h: "truthy (viewState (c_props sample_with_viewState))"
    by (simp add: sample_with_viewState_def)
  have z: "zoom (c_props sample_with_viewState) = JNum 11"
    by (simp add: sample_with_viewState_def sample_props_def)
  have off: "\<not> checkVisibilityConstraints sample_ext
      (SubjectValue (viewState (c_props sample_with_viewState)))
      (visibilityConstraints (c_props sample_with_viewState))"
    by (simp add: sample_with_viewState_def sample_props_def sample_ext_def sample_check_def
        field_def)
  note t = visibility_subject
      [where ext = sample_ext and c = sample_with_viewState and lon = "JNum 2"
         and lat = "JNum 48" and z = "JNum 1" and b = "JNum 90" and pt = "JNum 30"]
  from conjunct1 [OF t] h off
  have a: "el_style (map_surface (render sample_ext sample_with_viewState)) ''visibility'' = JStr ''hidden''"
    by simp
  from mp [OF conjunct2 [OF t] h] a
  have b: "el_style (map_surface (render sample_ext
      (sample_with_viewState\<lparr>c_props := (c_props sample_with_viewState)
          \<lparr>longitude := JNum 2, latitude := JNum 48, zoom := JNum 1, bearing := JNum 90,
           pitch := JNum 30\<rparr>\<rparr>))) ''visibility'' = JStr ''hidden''"
    by simp
  from h z a b show ?thesis by blast
qed

end
